theory Spec2Isabelle
  imports Complex_Main "HOL-Library.Word"
begin

section \<open>JavaScript values used by the component\<close>

text \<open>
  The component \<^verbatim>\<open>PhoneValidator\<close> of \<^verbatim>\<open>src/Projecttt.js\<close> works on JavaScript
  strings, which are sequences of 16-bit code units. String literals of the source are
  written as HOL strings and injected with \<open>js\<close>; every literal of the source is
  ASCII except the letter U+00F3 in one carrier name, which is a single code unit.
\<close>

type_synonym code_unit = "16 word"
type_synonym js_string = "code_unit list"

definition js :: "string \<Rightarrow> js_string" where
  "js s = map of_char s"

text \<open>
  \<^verbatim>\<open>String.prototype.trim\<close> removes white space and line terminators from both ends:
  TAB, LF, VT, FF, CR, SP, NBSP, U+1680, U+2000..U+200A, U+2028, U+2029, U+202F,
  U+205F, U+3000 and U+FEFF.
\<close>

definition isWhiteSpace :: "code_unit \<Rightarrow> bool" where
  "isWhiteSpace c =
     (c \<in> set [0x9, 0xA, 0xB, 0xC, 0xD, 0x20, 0xA0, 0x1680, 0x2028, 0x2029,
                0x202F, 0x205F, 0x3000, 0xFEFF]
      \<or> (0x2000 \<le> c \<and> c \<le> 0x200A))"

definition trim :: "js_string \<Rightarrow> js_string" where
  "trim s = rev (dropWhile isWhiteSpace (rev (dropWhile isWhiteSpace s)))"

text \<open>A thrown value: an \<^verbatim>\<open>Error\<close> object, identified by its message.\<close>

datatype js_error = JsError js_string

text \<open>
  Reading an array at an index: \<^verbatim>\<open>xs[i]\<close> is \<^verbatim>\<open>undefined\<close> outside
  \<open>0 \<le> i < xs.length\<close>.
\<close>

definition index :: "'a list \<Rightarrow> int \<Rightarrow> 'a option" where
  "index xs i = (if 0 \<le> i \<and> i < int (length xs) then Some (xs ! nat i) else None)"

section \<open>The data model\<close>

text \<open>
  \<^verbatim>\<open>interface PhoneInfo\<close> (lines 5 to 13): every field but \<^verbatim>\<open>isValid\<close> is optional;
  \<open>None\<close> stands for an absent or \<^verbatim>\<open>undefined\<close> field.
\<close>

record PhoneInfo =
  isValid :: bool
  country :: "js_string option"
  countryCode :: "js_string option"
  region :: "js_string option"
  nationalNumber :: "js_string option"
  internationalFormat :: "js_string option"
  carrier :: "js_string option"

text \<open>
  The package \<^verbatim>\<open>libphonenumber-js\<close> is imported by the component and is not part of
  the repository, so its two functions are parameters of the model. Each call may
  throw. A parsed number exposes \<^verbatim>\<open>country\<close> (a \<^verbatim>\<open>CountryCode\<close> or
  \<^verbatim>\<open>undefined\<close>), \<^verbatim>\<open>nationalNumber\<close> and the method
  \<^verbatim>\<open>formatInternational()\<close>; \<^verbatim>\<open>parsePhoneNumber\<close> may return \<^verbatim>\<open>undefined\<close>,
  which the source allows for with \<^verbatim>\<open>parsed?.\<close>
\<close>

record PhoneNumber =
  pn_country :: "js_string option"
  pn_nationalNumber :: js_string
  pn_formatInternational :: "js_error + js_string"

record libphonenumber =
  isValidPhoneNumber :: "js_string \<Rightarrow> js_error + bool"
  parsePhoneNumber :: "js_string \<Rightarrow> js_error + PhoneNumber option"

text \<open>
  The state that \<^verbatim>\<open>analyzePhoneNumber\<close> writes: the two React state variables
  \<^verbatim>\<open>phoneInfo\<close> and \<^verbatim>\<open>isAnalyzing\<close>, and the errors passed to
  \<^verbatim>\<open>console.error\<close>.
\<close>

record ui_state =
  phoneInfo :: "PhoneInfo option"
  isAnalyzing :: bool
  console :: "js_error list"

definition initial_state :: ui_state where
  "initial_state = \<lparr>phoneInfo = None, isAnalyzing = False, console = []\<rparr>"

section \<open>The tables\<close>

text \<open>\<^verbatim>\<open>countryNames\<close> (lines 25 to 91), in the order of the source.\<close>

definition countryNames_entries :: "(string \<times> string) list" where
  "countryNames_entries =
    [(''US'', ''United States''), (''CA'', ''Canada''), (''GB'', ''United Kingdom''),
     (''AU'', ''Australia''), (''DE'', ''Germany''), (''FR'', ''France''),
     (''IT'', ''Italy''), (''ES'', ''Spain''), (''BR'', ''Brazil''), (''IN'', ''India''),
     (''CN'', ''China''), (''JP'', ''Japan''), (''RU'', ''Russia''), (''MX'', ''Mexico''),
     (''AR'', ''Argentina''), (''CL'', ''Chile''), (''CO'', ''Colombia''), (''PE'', ''Peru''),
     (''VE'', ''Venezuela''), (''ZA'', ''South Africa''), (''EG'', ''Egypt''),
     (''NG'', ''Nigeria''), (''KE'', ''Kenya''), (''MA'', ''Morocco''), (''TN'', ''Tunisia''),
     (''GH'', ''Ghana''), (''TR'', ''Turkey''), (''SA'', ''Saudi Arabia''),
     (''AE'', ''United Arab Emirates''), (''IL'', ''Israel''), (''KW'', ''Kuwait''),
     (''QA'', ''Qatar''), (''BH'', ''Bahrain''), (''OM'', ''Oman''), (''JO'', ''Jordan''),
     (''LB'', ''Lebanon''), (''SY'', ''Syria''), (''IQ'', ''Iraq''), (''IR'', ''Iran''),
     (''AF'', ''Afghanistan''), (''PK'', ''Pakistan''), (''BD'', ''Bangladesh''),
     (''LK'', ''Sri Lanka''), (''NP'', ''Nepal''), (''BT'', ''Bhutan''), (''MV'', ''Maldives''),
     (''TH'', ''Thailand''), (''VN'', ''Vietnam''), (''KH'', ''Cambodia''), (''LA'', ''Laos''),
     (''MM'', ''Myanmar''), (''MY'', ''Malaysia''), (''SG'', ''Singapore''),
     (''ID'', ''Indonesia''), (''PH'', ''Philippines''), (''KR'', ''South Korea''),
     (''TW'', ''Taiwan''), (''HK'', ''Hong Kong''), (''MO'', ''Macau''), (''MN'', ''Mongolia''),
     (''KZ'', ''Kazakhstan''), (''UZ'', ''Uzbekistan''), (''TM'', ''Turkmenistan''),
     (''KG'', ''Kyrgyzstan''), (''TJ'', ''Tajikistan'')]"

definition countryNames :: "js_string \<rightharpoonup> js_string" where
  "countryNames = map_of (map (map_prod js js) countryNames_entries)"

text \<open>\<^verbatim>\<open>carrierInfo\<close> (lines 93 to 101).\<close>

definition carrierInfo_entries :: "(string \<times> string list) list" where
  "carrierInfo_entries =
    [(''US'', [''Verizon'', ''AT&T'', ''T-Mobile'', ''Sprint'']),
     (''IN'', [''Airtel'', ''Jio'', ''Vi (Vodafone Idea)'', ''BSNL'']),
     (''GB'', [''EE'', ''O2'', ''Three'', ''Vodafone'']),
     (''DE'', [''Deutsche Telekom'', ''Vodafone'', ''Telef'' @ [char_of (0xF3 :: nat)] @ ''nica'']),
     (''FR'', [''Orange'', ''SFR'', ''Bouygues'', ''Free'']),
     (''CA'', [''Rogers'', ''Bell'', ''Telus'']),
     (''AU'', [''Telstra'', ''Optus'', ''Vodafone''])]"

definition carrierInfo :: "js_string \<rightharpoonup> js_string list" where
  "carrierInfo = map_of (map (map_prod js (map js)) carrierInfo_entries)"

section \<open>analyzePhoneNumber\<close>

text \<open>
  The object literal \<^verbatim>\<open>{ isValid: false }\<close>, stored by the \<^verbatim>\<open>else\<close> branch
  (lines 132 to 134) and by the \<^verbatim>\<open>catch\<close> block (lines 138 to 140).
\<close>

definition invalid_info :: PhoneInfo where
  "invalid_info =
     \<lparr>isValid = False, country = None, countryCode = None, region = None,
      nationalNumber = None, internationalFormat = None, carrier = None\<rparr>"

text \<open>
  Line 118: \<^verbatim>\<open>country ? countryNames[country] || country : undefined\<close>. A string
  is truthy when it is not empty.
\<close>

definition countryName_of :: "js_string option \<Rightarrow> js_string option" where
  "countryName_of parsed_country =
     (case parsed_country of
        None \<Rightarrow> None
      | Some c \<Rightarrow>
          if c = [] then None
          else Some (case countryNames c of
                       None \<Rightarrow> c
                     | Some n \<Rightarrow> if n = [] then c else n))"

text \<open>
  Line 119: \<^verbatim>\<open>country && carrierInfo[country] ? carrierInfo[country] : []\<close>. An
  array is truthy, also when empty.
\<close>

definition carriers_of :: "js_string option \<Rightarrow> js_string list" where
  "carriers_of parsed_country =
     (case parsed_country of
        None \<Rightarrow> []
      | Some c \<Rightarrow>
          if c = [] then []
          else (case carrierInfo c of None \<Rightarrow> [] | Some cs \<Rightarrow> cs))"

text \<open>
  Line 120: \<^verbatim>\<open>carriers.length > 0 ? carriers[Math.floor(Math.random() * carriers.length)]
  : undefined\<close>. The value drawn by \<^verbatim>\<open>Math.random()\<close> is the parameter \<open>u\<close>, left
  unconstrained. The product is taken in the reals; the source multiplies doubles, whose
  rounding can give the neighbouring index for some draws. No property below depends on
  which index is drawn.
\<close>

definition randomCarrier_of :: "real \<Rightarrow> js_string list \<Rightarrow> js_string option" where
  "randomCarrier_of u carriers =
     (if length carriers > 0 then index carriers \<lfloor>u * real (length carriers)\<rfloor> else None)"

text \<open>
  The \<^verbatim>\<open>try\<close> block (lines 113 to 135), up to the argument of \<^verbatim>\<open>setPhoneInfo\<close>:
  \<open>Inl\<close> is a throw by one of the library calls, which happens before
  \<^verbatim>\<open>setPhoneInfo\<close> is reached. The source's variable \<^verbatim>\<open>country\<close> is
  \<open>parsed_country\<close> here, the record field having taken the name.
\<close>

definition try_block :: "libphonenumber \<Rightarrow> real \<Rightarrow> js_string \<Rightarrow> js_error + PhoneInfo" where
  "try_block lib u number =
     (case isValidPhoneNumber lib number of
        Inl e \<Rightarrow> Inl e
      | Inr valid \<Rightarrow>
          if valid then
            (case parsePhoneNumber lib number of
               Inl e \<Rightarrow> Inl e
             | Inr parsed \<Rightarrow>
                 let parsed_country = (case parsed of None \<Rightarrow> None | Some p \<Rightarrow> pn_country p);
                     countryName = countryName_of parsed_country;
                     carriers = carriers_of parsed_country;
                     randomCarrier = randomCarrier_of u carriers
                 in (case (case parsed of
                             None \<Rightarrow> Inr None
                           | Some p \<Rightarrow> map_sum id Some (pn_formatInternational p)) of
                       Inl e \<Rightarrow> Inl e
                     | Inr formatted \<Rightarrow>
                         Inr \<lparr>isValid = True,
                              country = countryName,
                              countryCode = parsed_country,
                              region = countryName,
                              nationalNumber = map_option pn_nationalNumber parsed,
                              internationalFormat = formatted,
                              carrier = randomCarrier\<rparr>))
          else Inr invalid_info)"

text \<open>
  The timer callback (lines 111 to 143): \<^verbatim>\<open>try\<close> and \<^verbatim>\<open>catch\<close>, then
  \<^verbatim>\<open>setIsAnalyzing(false)\<close>. The handler logs the error and stores
  \<^verbatim>\<open>{ isValid: false }\<close>.
\<close>

definition try_catch :: "js_error + 'a \<Rightarrow> (js_error \<Rightarrow> js_error + 'a) \<Rightarrow> js_error + 'a" where
  "try_catch body handler = (case body of Inl e \<Rightarrow> handler e | Inr v \<Rightarrow> Inr v)"

definition timer_callback ::
  "libphonenumber \<Rightarrow> real \<Rightarrow> js_string \<Rightarrow> ui_state \<Rightarrow> js_error + ui_state" where
  "timer_callback lib u number st =
     (case try_catch
             (case try_block lib u number of
                Inl e \<Rightarrow> Inl e
              | Inr info \<Rightarrow> Inr (st\<lparr>phoneInfo := Some info\<rparr>))
             (\<lambda>error. Inr (st\<lparr>console := console st @ [error],
                                phoneInfo := Some invalid_info\<rparr>)) of
        Inl e \<Rightarrow> Inl e
      | Inr st' \<Rightarrow> Inr (st'\<lparr>isAnalyzing := False\<rparr>))"

text \<open>
  \<^verbatim>\<open>analyzePhoneNumber\<close> (lines 103 to 144), run until its timer callback has
  finished; the delay of 800 ms is not part of the model. \<open>Inl\<close> would be an error
  escaping the function.
\<close>

definition analyzePhoneNumber ::
  "libphonenumber \<Rightarrow> real \<Rightarrow> js_string \<Rightarrow> ui_state \<Rightarrow> js_error + ui_state" where
  "analyzePhoneNumber lib u number st =
     (if trim number = [] then Inr (st\<lparr>phoneInfo := None\<rparr>)
      else timer_callback lib u number (st\<lparr>isAnalyzing := True\<rparr>))"

section \<open>Sample library behaviour\<close>

text \<open>
  Concrete values for the library parameter, used to run the component on concrete
  inputs. \<open>sample_lib\<close> accepts three of the example numbers offered by the component's
  buttons (lines 332 to 354), each with the country its label names (GB for the label
  UK), and rejects every other string; \<open>throwing_lib\<close> accepts every string and throws
  when asked to parse. They are sample behaviours, not a description of the package; the
  general theorems below hold for every value of the parameter.
\<close>

definition sample_numbers :: "(string \<times> string \<times> string \<times> string) list" where
  "sample_numbers =
    [(''+91 98765 43210'', ''IN'', ''9876543210'', ''+91 98765 43210''),
     (''+44 20 7946 0958'', ''GB'', ''2079460958'', ''+44 20 7946 0958''),
     (''+49 30 12345678'', ''DE'', ''3012345678'', ''+49 30 12345678'')]"

definition sample_parse :: "js_string \<Rightarrow> PhoneNumber option" where
  "sample_parse number =
     map_option
       (\<lambda>(c, n, f). \<lparr>pn_country = Some (js c), pn_nationalNumber = js n,
                     pn_formatInternational = Inr (js f)\<rparr>)
       (map_of (map (map_prod js id) sample_numbers) number)"

definition sample_lib :: libphonenumber where
  "sample_lib =
     \<lparr>isValidPhoneNumber = (\<lambda>number. Inr (sample_parse number \<noteq> None)),
      parsePhoneNumber = (\<lambda>number. Inr (sample_parse number))\<rparr>"

definition throwing_lib :: libphonenumber where
  "throwing_lib =
     \<lparr>isValidPhoneNumber = (\<lambda>number. Inr True),
      parsePhoneNumber = (\<lambda>number. Inl (JsError (js ''NOT_A_NUMBER'')))\<rparr>"

text \<open>Erasing the carrier of a stored result, to compare two runs on the other fields.\<close>

definition without_carrier :: "js_error + ui_state \<Rightarrow> js_error + ui_state" where
  "without_carrier r =
     map_sum id (\<lambda>st. st\<lparr>phoneInfo := map_option (\<lambda>i. i\<lparr>carrier := None\<rparr>) (phoneInfo st)\<rparr>) r"

section \<open>Shape of a run\<close>

lemma timer_callback_result:
  "timer_callback lib u number st =
     (case try_block lib u number of
        Inl e \<Rightarrow> Inr (st\<lparr>console := console st @ [e], phoneInfo := Some invalid_info,
                         isAnalyzing := False\<rparr>)
      | Inr info \<Rightarrow> Inr (st\<lparr>phoneInfo := Some info, isAnalyzing := False\<rparr>))"
  by (simp add: timer_callback_def try_catch_def split: sum.splits)

lemma analyzePhoneNumber_blank:
  "trim number = [] \<Longrightarrow> analyzePhoneNumber lib u number st = Inr (st\<lparr>phoneInfo := None\<rparr>)"
  by (simp add: analyzePhoneNumber_def)

lemma analyzePhoneNumber_nonblank:
  "trim number \<noteq> [] \<Longrightarrow>
   analyzePhoneNumber lib u number st =
     (case try_block lib u number of
        Inl e \<Rightarrow> Inr (st\<lparr>console := console st @ [e], phoneInfo := Some invalid_info,
                         isAnalyzing := False\<rparr>)
      | Inr info \<Rightarrow> Inr (st\<lparr>phoneInfo := Some info, isAnalyzing := False\<rparr>))"
  by (simp add: analyzePhoneNumber_def timer_callback_result split: sum.splits)


lemma try_block_invalid:
  "try_block lib u number = Inr info \<Longrightarrow> \<not> isValid info \<Longrightarrow> info = invalid_info"
  by (auto simp: try_block_def Let_def split: sum.splits if_splits)

lemma try_block_rejected:
  "isValidPhoneNumber lib number = Inr False \<Longrightarrow> try_block lib u number = Inr invalid_info"
  by (simp add: try_block_def)

lemma try_block_throw_cases:
  assumes "isValidPhoneNumber lib number = Inl e
           \<or> (isValidPhoneNumber lib number = Inr True \<and> parsePhoneNumber lib number = Inl e)
           \<or> (\<exists>p. isValidPhoneNumber lib number = Inr True \<and>
                    parsePhoneNumber lib number = Inr (Some p) \<and>
                    pn_formatInternational p = Inl e)"
  shows "try_block lib u number = Inl e"
  using assms by (auto simp: try_block_def Let_def)

lemma try_block_valid:
  assumes "try_block lib u number = Inr info" and "isValid info"
  shows "isValidPhoneNumber lib number = Inr True \<and>
         country info = countryName_of (countryCode info) \<and>
         region info = countryName_of (countryCode info) \<and>
         carrier info = randomCarrier_of u (carriers_of (countryCode info))"
  using assms
  by (auto simp: try_block_def Let_def invalid_info_def split: sum.splits if_splits)

lemma try_block_random:
  "map_sum id (\<lambda>i. i\<lparr>carrier := None\<rparr>) (try_block lib u number) =
   map_sum id (\<lambda>i. i\<lparr>carrier := None\<rparr>) (try_block lib u' number)"
  by (simp add: try_block_def Let_def split: sum.splits)



lemma index_mem: "index xs i = Some x \<Longrightarrow> x \<in> set xs"
  by (auto simp: index_def split: if_splits)

lemma randomCarrier_mem: "randomCarrier_of u cs = Some c \<Longrightarrow> c \<in> set cs"
  by (auto simp: randomCarrier_of_def dest: index_mem split: if_splits)


section \<open>Runs on the sample library\<close>

lemma trim_sample:
  "trim (js ''+91 98765 43210'') \<noteq> []" "trim (js ''+1 000-000-0000'') \<noteq> []"
  "trim (js ''12345'') \<noteq> []" "trim (js '''') = []" "trim (js ''abc'') \<noteq> []"
  by (simp_all add: trim_def js_def isWhiteSpace_def)

lemma sample_parse_in:
  "sample_parse (js ''+91 98765 43210'') =
     Some \<lparr>pn_country = Some (js ''IN''), pn_nationalNumber = js ''9876543210'',
           pn_formatInternational = Inr (js ''+91 98765 43210'')\<rparr>"
  by (simp add: sample_parse_def sample_numbers_def js_def)

lemma sample_parse_none:
  "sample_parse (js ''+1 000-000-0000'') = None" "sample_parse (js ''12345'') = None"
  "sample_parse (js ''abc'') = None"
  by (simp_all add: sample_parse_def sample_numbers_def js_def)

lemma countryNames_IN: "countryNames (js ''IN'') = Some (js ''India'')"
  by (simp add: countryNames_def countryNames_entries_def js_def)

lemma carrierInfo_IN:
  "carrierInfo (js ''IN'') = Some (map js [''Airtel'', ''Jio'', ''Vi (Vodafone Idea)'', ''BSNL''])"
  by (simp add: carrierInfo_def carrierInfo_entries_def js_def)

lemma sample_run_in:
  "analyzePhoneNumber sample_lib u (js ''+91 98765 43210'') st =
     Inr (st\<lparr>phoneInfo := Some
             \<lparr>isValid = True, country = Some (js ''India''),
              countryCode = Some (js ''IN''), region = Some (js ''India''),
              nationalNumber = Some (js ''9876543210''),
              internationalFormat = Some (js ''+91 98765 43210''),
              carrier = index (map js [''Airtel'', ''Jio'', ''Vi (Vodafone Idea)'', ''BSNL''])
                          \<lfloor>u * 4\<rfloor>\<rparr>,
            isAnalyzing := False\<rparr>)"
proof -
  have ne: "js ''IN'' \<noteq> []" "js ''India'' \<noteq> []" by (simp_all add: js_def)
  have "try_block sample_lib u (js ''+91 98765 43210'') =
     Inr \<lparr>isValid = True, country = Some (js ''India''),
              countryCode = Some (js ''IN''), region = Some (js ''India''),
              nationalNumber = Some (js ''9876543210''),
              internationalFormat = Some (js ''+91 98765 43210''),
              carrier = index (map js [''Airtel'', ''Jio'', ''Vi (Vodafone Idea)'', ''BSNL''])
                          \<lfloor>u * 4\<rfloor>\<rparr>"
    by (simp add: try_block_def sample_lib_def sample_parse_in countryName_of_def
        carriers_of_def countryNames_IN carrierInfo_IN randomCarrier_of_def ne Let_def)
  then show ?thesis
    by (simp add: analyzePhoneNumber_nonblank trim_sample)
qed

lemma sample_run_rejected:
  "analyzePhoneNumber sample_lib u (js ''+1 000-000-0000'') st =
     Inr (st\<lparr>phoneInfo := Some invalid_info, isAnalyzing := False\<rparr>)"
  "analyzePhoneNumber sample_lib u (js ''12345'') st =
     Inr (st\<lparr>phoneInfo := Some invalid_info, isAnalyzing := False\<rparr>)"
  "analyzePhoneNumber sample_lib u (js ''abc'') st =
     Inr (st\<lparr>phoneInfo := Some invalid_info, isAnalyzing := False\<rparr>)"
  by (simp_all add: analyzePhoneNumber_nonblank trim_sample try_block_def sample_lib_def
      sample_parse_none)

lemma throwing_run:
  "analyzePhoneNumber throwing_lib u (js ''12345'') st =
     Inr (st\<lparr>console := console st @ [JsError (js ''NOT_A_NUMBER'')],
             phoneInfo := Some invalid_info, isAnalyzing := False\<rparr>)"
  by (simp add: analyzePhoneNumber_nonblank trim_sample try_block_def throwing_lib_def)

section \<open>Properties of analyzePhoneNumber\<close>

text \<open>
  C1. Two runs of \<^verbatim>\<open>analyzePhoneNumber\<close> on the same input, with the same library and
  from the same state, may draw different values from \<^verbatim>\<open>Math.random()\<close>. They end in
  states that agree once the \<^verbatim>\<open>carrier\<close> field of the stored result is erased: every
  other field of the result, and the rest of the state, is a function of the input alone.
\<close>

theorem runs_agree_up_to_carrier:
  "without_carrier (analyzePhoneNumber lib u number st) =
   without_carrier (analyzePhoneNumber lib u' number st)"
proof (cases "trim number = []")
  case True
  then show ?thesis by (simp add: analyzePhoneNumber_blank)
next
  case False
  show ?thesis
    using try_block_random [of lib u number u']
    by (auto simp: analyzePhoneNumber_nonblank [OF False] without_carrier_def
        split: sum.splits)
qed

theorem runs_agree_up_to_carrier_witness:
  "without_carrier (analyzePhoneNumber sample_lib 0 (js ''+91 98765 43210'') initial_state) =
   without_carrier (analyzePhoneNumber sample_lib (1/2) (js ''+91 98765 43210'') initial_state)"
  by (rule runs_agree_up_to_carrier)

text \<open>
  The carrier itself is not determined by the input: for the second example number, under
  the sample library, the draw 0 stores Airtel and the draw 1/2 stores Vi (Vodafone Idea).
\<close>

theorem random_carrier_counterexample:
  "analyzePhoneNumber sample_lib 0 (js ''+91 98765 43210'') initial_state \<noteq>
   analyzePhoneNumber sample_lib (1/2) (js ''+91 98765 43210'') initial_state"
proof -
  let ?carrier = "\<lambda>r. case r of Inl e \<Rightarrow> None | Inr s \<Rightarrow> map_option carrier (phoneInfo s)"
  have "?carrier (analyzePhoneNumber sample_lib 0 (js ''+91 98765 43210'') initial_state) =
        Some (Some (js ''Airtel''))"
    by (simp add: sample_run_in index_def)
  moreover
  have "?carrier (analyzePhoneNumber sample_lib (1/2) (js ''+91 98765 43210'') initial_state) =
        Some (Some (js ''Vi (Vodafone Idea)''))"
    by (simp add: sample_run_in index_def)
  moreover have "js ''Airtel'' \<noteq> js ''Vi (Vodafone Idea)''"
    by (simp add: js_def)
  ultimately show ?thesis
    by auto
qed

text \<open>
  C2. \<^verbatim>\<open>analyzePhoneNumber\<close> never throws: for every library behaviour, every draw, every
  input and every state it returns normally. When the input is not blank and the library
  judges it not valid, the stored result has \<^verbatim>\<open>isValid = false\<close>.
\<close>

theorem invalid_number_is_a_result:
  "\<exists>st'. analyzePhoneNumber lib u number st = Inr st' \<and>
         (trim number \<noteq> [] \<longrightarrow> isValidPhoneNumber lib number = Inr False \<longrightarrow>
            map_option isValid (phoneInfo st') = Some False)"
proof (cases "trim number = []")
  case True
  then show ?thesis by (simp add: analyzePhoneNumber_blank)
next
  case False
  then show ?thesis
    by (auto simp: analyzePhoneNumber_nonblank try_block_rejected invalid_info_def
        split: sum.splits)
qed

theorem invalid_number_is_a_result_witness:
  "trim (js ''+1 000-000-0000'') \<noteq> [] \<and>
   isValidPhoneNumber sample_lib (js ''+1 000-000-0000'') = Inr False \<and>
   (\<exists>st'. analyzePhoneNumber sample_lib 0 (js ''+1 000-000-0000'') initial_state = Inr st' \<and>
          map_option isValid (phoneInfo st') = Some False)"
  using invalid_number_is_a_result [of sample_lib 0 "js ''+1 000-000-0000''" initial_state]
  by (simp add: trim_sample sample_lib_def sample_parse_none)


text \<open>
  C3. An input that is empty, or white space only, makes \<^verbatim>\<open>analyzePhoneNumber\<close> set
  \<^verbatim>\<open>phoneInfo\<close> to \<^verbatim>\<open>null\<close> and return normally, without raising an error. Every
  other input, also one with no digit and no plus sign, makes it return normally with a
  stored result.
\<close>

theorem blank_input_clears_result:
  "(trim number = [] \<longrightarrow>
      analyzePhoneNumber lib u number st = Inr (st\<lparr>phoneInfo := None\<rparr>)) \<and>
   (trim number \<noteq> [] \<longrightarrow>
      (\<exists>st' info. analyzePhoneNumber lib u number st = Inr st' \<and> phoneInfo st' = Some info))"
  by (auto simp: analyzePhoneNumber_blank analyzePhoneNumber_nonblank split: sum.splits)

theorem blank_input_clears_result_witness:
  "trim (js '''') = [] \<and>
   analyzePhoneNumber sample_lib 0 (js '''') initial_state =
     Inr (initial_state\<lparr>phoneInfo := None\<rparr>) \<and>
   trim (js ''abc'') \<noteq> [] \<and>
   (\<exists>st' info. analyzePhoneNumber sample_lib 0 (js ''abc'') initial_state = Inr st' \<and>
               phoneInfo st' = Some info)"
  using blank_input_clears_result [of "js ''''" sample_lib 0 initial_state]
    blank_input_clears_result [of "js ''abc''" sample_lib 0 initial_state]
  by (simp add: trim_sample)

text \<open>
  The empty input is not an error: the run returns normally and leaves the initial
  state, whose \<^verbatim>\<open>phoneInfo\<close> is \<^verbatim>\<open>null\<close>, as it was. The input abc, which has no
  digit and no plus sign either, is not an error and does not clear the result: under the
  sample library, which rejects it, the run stores \<^verbatim>\<open>{ isValid: false }\<close>.
\<close>

theorem empty_input_counterexample:
  "analyzePhoneNumber sample_lib 0 (js '''') initial_state = Inr initial_state \<and>
   \<not> isl (analyzePhoneNumber sample_lib 0 (js '''') initial_state) \<and>
   analyzePhoneNumber sample_lib 0 (js ''abc'') initial_state =
     Inr (initial_state\<lparr>phoneInfo := Some invalid_info\<rparr>)"
  by (simp add: analyzePhoneNumber_blank trim_sample sample_run_rejected initial_state_def)

text \<open>
  C4. For every input that is not blank, with or without a leading plus sign (the
  component passes no default region to the library), \<^verbatim>\<open>analyzePhoneNumber\<close> does not
  fail: it returns normally, having stored a result and reset \<^verbatim>\<open>isAnalyzing\<close>, and
  the result is valid only if the library's \<^verbatim>\<open>isValidPhoneNumber\<close> returned true.
\<close>

theorem nonblank_input_stores_result:
  assumes "trim number \<noteq> []"
  shows "\<exists>st' info. analyzePhoneNumber lib u number st = Inr st' \<and>
           phoneInfo st' = Some info \<and> \<not> isAnalyzing st' \<and>
           (isValid info \<longrightarrow> isValidPhoneNumber lib number = Inr True)"
proof (cases "try_block lib u number")
  case (Inl e)
  with assms show ?thesis
    by (simp add: analyzePhoneNumber_nonblank invalid_info_def)
next
  case (Inr info)
  with assms try_block_valid [OF Inr] show ?thesis
    by (simp add: analyzePhoneNumber_nonblank)
qed

theorem nonblank_input_stores_result_witness:
  "trim (js ''12345'') \<noteq> [] \<and>
   (\<exists>st' info. analyzePhoneNumber sample_lib 0 (js ''12345'') initial_state = Inr st' \<and>
       phoneInfo st' = Some info \<and> \<not> isAnalyzing st' \<and>
       (isValid info \<longrightarrow> isValidPhoneNumber sample_lib (js ''12345'') = Inr True))"
  using nonblank_input_stores_result [of "js ''12345''" sample_lib 0 initial_state]
  by (simp add: trim_sample)

text \<open>
  The input 12345 is not an error: under the sample library, which rejects it, the run
  returns normally with the result \<^verbatim>\<open>{ isValid: false }\<close>.
\<close>

theorem ambiguous_region_counterexample:
  "analyzePhoneNumber sample_lib 0 (js ''12345'') initial_state =
     Inr (initial_state\<lparr>phoneInfo := Some invalid_info\<rparr>) \<and>
   \<not> isl (analyzePhoneNumber sample_lib 0 (js ''12345'') initial_state)"
  by (simp add: sample_run_rejected initial_state_def)

text \<open>
  C6. For every input that is not blank and that the library judges not valid, the
  stored result has \<^verbatim>\<open>isValid = false\<close> and no other field: no country code, no
  region (in particular not the string \<open>unknown\<close>), no country, no national number and no
  international format, and no carrier, so nothing of a resolved calling code is
  retained.
\<close>

theorem rejected_number_has_no_region:
  assumes "trim number \<noteq> []" and "isValidPhoneNumber lib number = Inr False"
  shows "\<exists>st' info. analyzePhoneNumber lib u number st = Inr st' \<and>
           phoneInfo st' = Some info \<and> \<not> isValid info \<and>
           countryCode info = None \<and> region info = None \<and> country info = None \<and>
           nationalNumber info = None \<and> internationalFormat info = None \<and>
           carrier info = None"
  using assms
  by (simp add: analyzePhoneNumber_nonblank try_block_rejected invalid_info_def)

theorem rejected_number_has_no_region_witness:
  "trim (js ''+1 000-000-0000'') \<noteq> [] \<and>
   isValidPhoneNumber sample_lib (js ''+1 000-000-0000'') = Inr False \<and>
   (\<exists>st' info. analyzePhoneNumber sample_lib 0 (js ''+1 000-000-0000'') initial_state = Inr st' \<and>
           phoneInfo st' = Some info \<and> \<not> isValid info \<and>
           countryCode info = None \<and> region info = None \<and> country info = None \<and>
           nationalNumber info = None \<and> internationalFormat info = None \<and>
           carrier info = None)"
  using rejected_number_has_no_region [of "js ''+1 000-000-0000''" sample_lib 0 initial_state]
  by (simp add: trim_sample sample_lib_def sample_parse_none)

text \<open>
  The input +1 000-000-0000, rejected by the sample library, yields
  \<^verbatim>\<open>{ isValid: false }\<close>, whose region and country code are absent, not \<open>unknown\<close>.
\<close>

theorem unknown_region_counterexample:
  "analyzePhoneNumber sample_lib 0 (js ''+1 000-000-0000'') initial_state =
     Inr (initial_state\<lparr>phoneInfo := Some invalid_info\<rparr>) \<and>
   region invalid_info \<noteq> Some (js ''unknown'') \<and>
   countryCode invalid_info \<noteq> Some (js ''unknown'')"
  by (simp add: sample_run_rejected initial_state_def invalid_info_def)



text \<open>
  C9. Every input that is not blank and is judged invalid stores exactly
  \<^verbatim>\<open>{ isValid: false }\<close>, with country, countryCode, region, nationalNumber,
  internationalFormat and carrier all absent. Judged invalid means that
  \<^verbatim>\<open>isValidPhoneNumber\<close> returns false, or that a library call throws inside the
  \<^verbatim>\<open>try\<close> block: \<^verbatim>\<open>isValidPhoneNumber\<close> itself, \<^verbatim>\<open>parsePhoneNumber\<close> after an
  accepted check, or \<^verbatim>\<open>formatInternational()\<close> of the parsed number. Conversely, a
  stored result whose \<^verbatim>\<open>isValid\<close> is false is always that bare record.
\<close>

theorem invalid_result_has_only_isValid:
  assumes "trim number \<noteq> []"
  shows "\<exists>st' info. analyzePhoneNumber lib u number st = Inr st' \<and>
           phoneInfo st' = Some info \<and>
           ((isValidPhoneNumber lib number = Inr False
             \<or> (\<exists>e. isValidPhoneNumber lib number = Inl e)
             \<or> (\<exists>e. isValidPhoneNumber lib number = Inr True \<and>
                     parsePhoneNumber lib number = Inl e)
             \<or> (\<exists>e p. isValidPhoneNumber lib number = Inr True \<and>
                     parsePhoneNumber lib number = Inr (Some p) \<and>
                     pn_formatInternational p = Inl e)) \<longrightarrow>
            info = \<lparr>isValid = False, country = None, countryCode = None, region = None,
                    nationalNumber = None, internationalFormat = None, carrier = None\<rparr>) \<and>
           (\<not> isValid info \<longrightarrow>
            info = \<lparr>isValid = False, country = None, countryCode = None, region = None,
                    nationalNumber = None, internationalFormat = None, carrier = None\<rparr>)"
proof -
  let ?bare = "\<lparr>isValid = False, country = None, countryCode = None, region = None,
                nationalNumber = None, internationalFormat = None, carrier = None\<rparr>"
  let ?rejected = "isValidPhoneNumber lib number = Inr False
             \<or> (\<exists>e. isValidPhoneNumber lib number = Inl e)
             \<or> (\<exists>e. isValidPhoneNumber lib number = Inr True \<and>
                     parsePhoneNumber lib number = Inl e)
             \<or> (\<exists>e p. isValidPhoneNumber lib number = Inr True \<and>
                     parsePhoneNumber lib number = Inr (Some p) \<and>
                     pn_formatInternational p = Inl e)"
  have bare: "invalid_info = ?bare"
    by (simp add: invalid_info_def)
  obtain st' info where run: "analyzePhoneNumber lib u number st = Inr st'"
    and stored: "phoneInfo st' = Some info"
    and shape: "try_block lib u number = Inr info \<or>
                (\<exists>e. try_block lib u number = Inl e) \<and> info = invalid_info"
    using assms
    by (cases "try_block lib u number") (simp_all add: analyzePhoneNumber_nonblank)
  have flag: "info = ?bare" if "\<not> isValid info"
    using shape try_block_invalid [of lib u number info] that bare by metis
  have input: "info = ?bare" if r: ?rejected
  proof -
    from r consider "isValidPhoneNumber lib number = Inr False"
      | e where "try_block lib u number = Inl e"
      using try_block_throw_cases [of lib number _ u] by metis
    then show ?thesis
    proof cases
      case 1
      from try_block_rejected [OF 1, of u] shape show ?thesis
        using bare by auto
    next
      case 2
      with shape show ?thesis using bare by auto
    qed
  qed
  from run stored flag input show ?thesis
    by blast
qed

theorem invalid_result_has_only_isValid_witness:
  "trim (js ''+1 000-000-0000'') \<noteq> [] \<and>
   isValidPhoneNumber sample_lib (js ''+1 000-000-0000'') = Inr False \<and>
   (\<exists>st'. analyzePhoneNumber sample_lib 0 (js ''+1 000-000-0000'') initial_state = Inr st' \<and>
      phoneInfo st' = Some \<lparr>isValid = False, country = None, countryCode = None,
              region = None, nationalNumber = None, internationalFormat = None,
              carrier = None\<rparr>) \<and>
   trim (js ''12345'') \<noteq> [] \<and>
   isValidPhoneNumber throwing_lib (js ''12345'') = Inr True \<and>
   parsePhoneNumber throwing_lib (js ''12345'') = Inl (JsError (js ''NOT_A_NUMBER'')) \<and>
   (\<exists>st'. analyzePhoneNumber throwing_lib 0 (js ''12345'') initial_state = Inr st' \<and>
      phoneInfo st' = Some \<lparr>isValid = False, country = None, countryCode = None,
              region = None, nationalNumber = None, internationalFormat = None,
              carrier = None\<rparr>)"
proof -
  have rej: "isValidPhoneNumber sample_lib (js ''+1 000-000-0000'') = Inr False"
    by (simp add: sample_lib_def sample_parse_none)
  have thr: "isValidPhoneNumber throwing_lib (js ''12345'') = Inr True"
    "parsePhoneNumber throwing_lib (js ''12345'') = Inl (JsError (js ''NOT_A_NUMBER''))"
    by (simp_all add: throwing_lib_def)
  from invalid_result_has_only_isValid [OF trim_sample(2), of sample_lib 0 initial_state] rej
  have a: "\<exists>st'. analyzePhoneNumber sample_lib 0 (js ''+1 000-000-0000'') initial_state = Inr st' \<and>
      phoneInfo st' = Some \<lparr>isValid = False, country = None, countryCode = None,
              region = None, nationalNumber = None, internationalFormat = None,
              carrier = None\<rparr>"
    by blast
  from invalid_result_has_only_isValid [OF trim_sample(3), of throwing_lib 0 initial_state] thr
  have b: "\<exists>st'. analyzePhoneNumber throwing_lib 0 (js ''12345'') initial_state = Inr st' \<and>
      phoneInfo st' = Some \<lparr>isValid = False, country = None, countryCode = None,
              region = None, nationalNumber = None, internationalFormat = None,
              carrier = None\<rparr>"
    by blast
  from a b rej thr show ?thesis
    by (simp add: trim_sample)
qed




end
